theory Spec2Isabelle
  imports Main
begin

section \<open>Data model of the git identity switcher (src/src/extension.ts)\<close>

text \<open>
  A field of a user object read at run time is a JavaScript string or \<open>undefined\<close>:
  the array destructuring of line 36 binds \<open>undefined\<close> to a name that has no
  matching element, whatever the declared type says.
\<close>

datatype jsstring = Undefined | Str string

text \<open>
  Modelled from the spec: the \<open>User\<close> type imported from \<open>./types\<close>, which is
  not among the sources; the spec gives it as \<open>{ name: string, email: string }\<close>.
\<close>

record User =
  name :: jsstring
  email :: jsstring

text \<open>
  The outcome of a child process started with \<open>exec\<close>, as its callback sees it:
  an error, or no error and the standard output.
\<close>

datatype exec_result = ExecErr | ExecOk string

text \<open>
  What the host gives to one call of an operation: the workspace folders (their
  \<open>uri.fsPath\<close>, or \<open>None\<close> for \<open>undefined\<close>), the outcome of a shell command run
  in a working directory (\<open>None\<close> for \<open>cwd: undefined\<close>), and whether writing a new
  value of the configuration key \<open>git-switcher.users\<close> is accepted.
\<close>

record env =
  workspaceFolders :: "string list option"
  exec :: "string \<Rightarrow> string option \<Rightarrow> exec_result"
  update :: "User list \<Rightarrow> bool"

text \<open>The effects an operation has on the outside, in the order they happen.\<close>

datatype event =
    Exec string "string option"
  | ShowWarningMessage string
  | ShowErrorMessage string
  | ConsoleError string
  | Update "User list"

text \<open>What is thrown inside an operation: a failed child process, a refused configuration write.\<close>

datatype error = ExecError | UpdateError

text \<open>How the promise of an \<open>async\<close> function settles.\<close>

datatype 'a outcome = Resolved 'a | Rejected error

section \<open>JavaScript string operations used by the probe\<close>

text \<open>
  \<open>String.prototype.trim\<close> removes white space and line terminators at both ends.
  A \<open>char\<close> stands for a code unit below 256, where these are tab, line feed,
  vertical tab, form feed, carriage return, space and the no-break space.
\<close>

definition is_white_space :: "char \<Rightarrow> bool" where
  "is_white_space c \<longleftrightarrow>
     c \<in> {CHR 0x09, CHR 0x0A, CHR 0x0B, CHR 0x0C, CHR 0x0D, CHR 0x20, CHR 0xA0}"

definition trim :: "string \<Rightarrow> string" where
  "trim s = rev (dropWhile is_white_space (rev (dropWhile is_white_space s)))"

text \<open>\<open>s.split("\n")\<close>: the pieces between line feeds, one more than there are line feeds.\<close>

fun split_nl :: "string \<Rightarrow> string list" where
  "split_nl [] = [[]]"
| "split_nl (c # cs) =
     (if c = CHR 0x0A then [] # split_nl cs
      else (case split_nl cs of [] \<Rightarrow> [[c]] | p # ps \<Rightarrow> (c # p) # ps))"

text \<open>Reading element \<open>i\<close> of an array of strings; past the end JavaScript gives \<open>undefined\<close>.\<close>

definition element :: "string list \<Rightarrow> nat \<Rightarrow> jsstring" where
  "element xs i = (if i < length xs then Str (xs ! i) else Undefined)"

text \<open>The text a template literal puts in place of \<open>${v}\<close>.\<close>

fun to_text :: "jsstring \<Rightarrow> string" where
  "to_text Undefined = ''undefined''"
| "to_text (Str s) = s"

section \<open>The operations\<close>

definition read_cmd :: string where
  "read_cmd = ''git config user.name && git config user.email''"

definition probe_cmd :: string where
  "probe_cmd = ''git rev-parse --is-inside-work-tree''"

text \<open>The command of lines 82 to 85; \<open>CHR 0x22\<close> is the double quote.\<close>

definition write_cmd :: "User \<Rightarrow> bool \<Rightarrow> string" where
  "write_cmd user global =
     (let configScope = (if global then ''--global'' else '''')
      in ''git config '' @ configScope @ '' user.name '' @ [CHR 0x22] @ to_text (name user) @ [CHR 0x22]
         @ '' && git config '' @ configScope @ '' user.email '' @ [CHR 0x22] @ to_text (email user) @ [CHR 0x22])"

text \<open>\<open>getUsersList\<close> (lines 5 to 10) reads the stored sequence, a fresh copy at every call.\<close>

definition getUsersList :: "User list \<Rightarrow> User list" where
  "getUsersList store = store"

text \<open>
  The registration block that both operations end with (lines 42 to 51 and 97 to 106):
  look the user up by name and email, and if it is not found push it and write the
  whole list back. The second component is the stored sequence afterwards.
\<close>

definition addIfAbsent :: "env \<Rightarrow> User list \<Rightarrow> User \<Rightarrow> unit outcome \<times> User list \<times> event list" where
  "addIfAbsent e store user =
     (let usersList = getUsersList store
      in case find (\<lambda>u. name u = name user \<and> email u = email user) usersList of
           Some found \<Rightarrow> (Resolved (), store, [])
         | None \<Rightarrow>
             (let pushed = usersList @ [user]
              in if update e pushed then (Resolved (), pushed, [Update pushed])
                 else (Rejected UpdateError, store, [Update pushed])))"

text \<open>
  The working directory of the probe (lines 18 to 24): the first workspace folder, or
  the empty string after a warning when there is none.
\<close>

definition repoPath_of :: "env \<Rightarrow> string \<times> event list" where
  "repoPath_of e =
     (case workspaceFolders e of
        None \<Rightarrow> ('''', [ShowWarningMessage ''No workspace folder found, trying to get global user''])
      | Some [] \<Rightarrow> ('''', [ShowWarningMessage ''No workspace folder found, trying to get global user''])
      | Some (folder # rest) \<Rightarrow> (folder, []))"

text \<open>The option \<open>cwd: repoPath || undefined\<close> of line 27: an empty path counts as none.\<close>

definition probe_cwd :: "env \<Rightarrow> string option" where
  "probe_cwd e = (let repoPath = fst (repoPath_of e) in if repoPath = '''' then None else Some repoPath)"

text \<open>The body of the \<open>try\<close> of \<open>getCurrentUser\<close> (lines 18 to 38); \<open>Inl\<close> is what it throws.\<close>

definition getCurrentUser_try :: "env \<Rightarrow> (error + User) \<times> event list" where
  "getCurrentUser_try e =
     (let warned = snd (repoPath_of e);
          cwd = probe_cwd e
      in case exec e read_cmd cwd of
           ExecErr \<Rightarrow> (Inl ExecError, warned @ [Exec read_cmd cwd])
         | ExecOk stdout \<Rightarrow>
             (let parts = split_nl (trim stdout)
              in (Inr \<lparr>name = element parts 0, email = element parts 1\<rparr>,
                  warned @ [Exec read_cmd cwd])))"

definition empty_user :: User where
  "empty_user = \<lparr>name = Str '''', email = Str ''''\<rparr>"

text \<open>
  The \<open>try\<close> of \<open>getCurrentUser\<close> with its \<open>catch\<close> (lines 13 to 41): the value
  of \<open>currentUser\<close> when the registration starts. A throw leaves the initial empty
  user, both fields being assigned only after the command has succeeded.
\<close>

definition getCurrentUser_catch :: "env \<Rightarrow> User \<times> event list" where
  "getCurrentUser_catch e =
     (case getCurrentUser_try e of
        (Inl err, evs) \<Rightarrow> (empty_user, evs @ [ShowErrorMessage ''Error getting current user''])
      | (Inr user, evs) \<Rightarrow> (user, evs))"

text \<open>
  \<open>getCurrentUser\<close> (lines 12 to 53): the \<open>try\<close>, its \<open>catch\<close>, and then the
  registration, which is outside the \<open>try\<close>.
\<close>

definition getCurrentUser :: "env \<Rightarrow> User list \<Rightarrow> User outcome \<times> User list \<times> event list" where
  "getCurrentUser e store =
     (let (currentUser, evs1) = getCurrentUser_catch e
      in case addIfAbsent e store currentUser of
           (Rejected err, store', evs2) \<Rightarrow> (Rejected err, store', evs1 @ evs2)
         | (Resolved u, store', evs2) \<Rightarrow> (Resolved currentUser, store', evs1 @ evs2))"

text \<open>
  The body of the \<open>try\<close> of \<open>setUser\<close> (lines 57 to 107); \<open>Inl\<close> is what it throws,
  \<open>Inr None\<close> is a plain \<open>return\<close>.
\<close>

definition setUser_try :: "env \<Rightarrow> User list \<Rightarrow> User \<Rightarrow> bool \<Rightarrow> (error + User option) \<times> User list \<times> event list" where
  "setUser_try e store user global =
     (case workspaceFolders e of
        None \<Rightarrow> (Inr None, store, [ShowErrorMessage ''No workspace folder found''])
      | Some [] \<Rightarrow> (Inr None, store, [ShowErrorMessage ''No workspace folder found''])
      | Some (repoPath # rest) \<Rightarrow>
          (let isRepoInitialized =
                 (case exec e probe_cmd (Some repoPath) of ExecErr \<Rightarrow> False | ExecOk out \<Rightarrow> True);
               evs1 = [Exec probe_cmd (Some repoPath)]
           in if \<not> isRepoInitialized \<and> \<not> global
              then (Inr None, store,
                    evs1 @ [ShowErrorMessage ''Git repository not initialized. Please initialize a repository or set the user globally.''])
              else
                (let evs2 = evs1 @ [Exec (write_cmd user global) (Some repoPath)]
                 in case exec e (write_cmd user global) (Some repoPath) of
                      ExecErr \<Rightarrow> (Inl ExecError, store, evs2 @ [ConsoleError ''Error setting user:''])
                    | ExecOk out \<Rightarrow>
                        (case addIfAbsent e store user of
                           (Rejected err, store', evs3) \<Rightarrow> (Inl err, store', evs2 @ evs3)
                         | (Resolved u, store', evs3) \<Rightarrow> (Inr (Some user), store', evs2 @ evs3)))))"

text \<open>\<open>setUser\<close> (lines 55 to 111): the \<open>try\<close> and its \<open>catch\<close>, which returns nothing.\<close>

definition setUser :: "env \<Rightarrow> User list \<Rightarrow> User \<Rightarrow> bool \<Rightarrow> User option outcome \<times> User list \<times> event list" where
  "setUser e store user global =
     (case setUser_try e store user global of
        (Inl err, store', evs) \<Rightarrow> (Resolved None, store', evs @ [ShowErrorMessage ''Error setting current user''])
      | (Inr result, store', evs) \<Rightarrow> (Resolved result, store', evs))"

section \<open>Sequences of operations\<close>

text \<open>
  One call of either operation, with the environment it runs in. \<open>run_op\<close> gives the
  identity the call returned, if it returned one, and the stored sequence afterwards;
  \<open>run\<close> does the calls of a list one after the other and collects the identities
  returned.
\<close>

datatype op = Resolve env | Apply env User bool

fun run_op :: "op \<Rightarrow> User list \<Rightarrow> User option \<times> User list" where
  "run_op (Resolve e) store =
     (case getCurrentUser e store of
        (Resolved user, store', evs) \<Rightarrow> (Some user, store')
      | (Rejected err, store', evs) \<Rightarrow> (None, store'))"
| "run_op (Apply e user global) store =
     (case setUser e store user global of
        (Resolved result, store', evs) \<Rightarrow> (result, store')
      | (Rejected err, store', evs) \<Rightarrow> (None, store'))"

fun run :: "op list \<Rightarrow> User list \<Rightarrow> User list \<times> User list" where
  "run [] store = ([], store)"
| "run (x # xs) store =
     (let (result, store') = run_op x store;
          (results, store'') = run xs store'
      in ((case result of None \<Rightarrow> results | Some user \<Rightarrow> user # results), store''))"

section \<open>The registration block\<close>

text \<open>Two users have the same name and the same email exactly when they are equal.\<close>

lemma same_user: "name u = name v \<and> email u = email v \<longleftrightarrow> (u :: User) = v"
  by (cases u, cases v) auto

lemma find_user_None:
  "find (\<lambda>u. name u = name user \<and> email u = email user) (xs :: User list) = None \<longleftrightarrow> user \<notin> set xs"
  by (auto simp: find_None_iff same_user)

lemma addIfAbsent_present:
  "user \<in> set store \<Longrightarrow> addIfAbsent e store user = (Resolved (), store, [])"
  using find_user_None [of user store]
  by (auto simp: addIfAbsent_def getUsersList_def split: option.splits)

lemma addIfAbsent_absent:
  "user \<notin> set store \<Longrightarrow>
   addIfAbsent e store user =
     (if update e (store @ [user]) then (Resolved (), store @ [user], [Update (store @ [user])])
      else (Rejected UpdateError, store, [Update (store @ [user])]))"
  using find_user_None [of user store]
  by (auto simp: addIfAbsent_def getUsersList_def Let_def split: option.splits)

lemma addIfAbsent_cases:
  obtains (present) "user \<in> set store" "addIfAbsent e store user = (Resolved (), store, [])"
  | (pushed) "user \<notin> set store" "update e (store @ [user])"
      "addIfAbsent e store user = (Resolved (), store @ [user], [Update (store @ [user])])"
  | (refused) "user \<notin> set store" "\<not> update e (store @ [user])"
      "addIfAbsent e store user = (Rejected UpdateError, store, [Update (store @ [user])])"
  using addIfAbsent_present [of user store e] addIfAbsent_absent [of user store e]
  by (cases "user \<in> set store"; cases "update e (store @ [user])") auto

section \<open>Applying an identity: the paths that stop early\<close>

text \<open>
  C8. When there is no workspace folder (the list is undefined or empty), \<open>setUser\<close>,
  for every user and for both scopes, shows "No workspace folder found" and returns
  nothing; the stored sequence is unchanged and no command is run: the notice is the
  only effect.
\<close>

theorem setUser_no_workspace:
  assumes "workspaceFolders e = None \<or> workspaceFolders e = Some []"
  shows "setUser e store user global =
           (Resolved None, store, [ShowErrorMessage ''No workspace folder found''])"
  using assms by (auto simp: setUser_def setUser_try_def)

theorem setUser_no_workspace_witness:
  "workspaceFolders \<lparr>workspaceFolders = None, exec = (\<lambda>c d. ExecOk ''''), update = (\<lambda>l. True)\<rparr> = None \<and>
   setUser \<lparr>workspaceFolders = None, exec = (\<lambda>c d. ExecOk ''''), update = (\<lambda>l. True)\<rparr>
      [] \<lparr>name = Str ''Bob'', email = Str ''bob@x.com''\<rparr> True =
     (Resolved None, [], [ShowErrorMessage ''No workspace folder found''])"
  using setUser_no_workspace
    [of "\<lparr>workspaceFolders = None, exec = (\<lambda>c d. ExecOk ''''), update = (\<lambda>l. True)\<rparr>"
        "[]" "\<lparr>name = Str ''Bob'', email = Str ''bob@x.com''\<rparr>" True]
  by simp

lemma write_cmd_not_probe_cmd: "write_cmd user global \<noteq> probe_cmd"
  by (simp add: write_cmd_def probe_cmd_def)

text \<open>
  C1. In a workspace folder where the repository check fails, \<open>setUser\<close> with the
  local scope stops at the check: it shows the "Git repository not initialized" notice
  and returns nothing, the stored sequence is unchanged, and the only command run is the
  repository check, so the write command is not run.
\<close>

theorem setUser_local_without_repository:
  assumes "workspaceFolders e = Some (repoPath # rest)"
    and "exec e probe_cmd (Some repoPath) = ExecErr"
  shows "setUser e store user False =
           (Resolved None, store,
            [Exec probe_cmd (Some repoPath),
             ShowErrorMessage ''Git repository not initialized. Please initialize a repository or set the user globally.''])
         \<and> (\<forall>dir. Exec (write_cmd user False) dir \<notin> set (snd (snd (setUser e store user False))))"
proof -
  have r: "setUser e store user False =
           (Resolved None, store,
            [Exec probe_cmd (Some repoPath),
             ShowErrorMessage ''Git repository not initialized. Please initialize a repository or set the user globally.''])"
    using assms by (simp add: setUser_def setUser_try_def)
  show ?thesis
    unfolding r using write_cmd_not_probe_cmd [of user False] by simp
qed


theorem setUser_local_without_repository_witness:
  "setUser \<lparr>workspaceFolders = Some [''/work''],
            exec = (\<lambda>c d. if c = probe_cmd then ExecErr else ExecOk ''''),
            update = (\<lambda>l. True)\<rparr>
      [] \<lparr>name = Str ''Carol'', email = Str ''carol@x.com''\<rparr> False =
     (Resolved None, [],
      [Exec probe_cmd (Some ''/work''),
       ShowErrorMessage ''Git repository not initialized. Please initialize a repository or set the user globally.''])"
  using setUser_local_without_repository
    [of "\<lparr>workspaceFolders = Some [''/work''],
           exec = (\<lambda>c d. if c = probe_cmd then ExecErr else ExecOk ''''),
           update = (\<lambda>l. True)\<rparr>"
        "''/work''" "[]" "[]" "\<lparr>name = Str ''Carol'', email = Str ''carol@x.com''\<rparr>"]
  by simp

section \<open>Applying an identity: the write and the registration\<close>

text \<open>
  What \<open>setUser\<close> does once the write command is reached: in a workspace folder, with
  the global scope or a successful repository check.
\<close>

lemma setUser_reaches_write:
  assumes "workspaceFolders e = Some (repoPath # rest)"
    and "global \<or> exec e probe_cmd (Some repoPath) \<noteq> ExecErr"
  shows "setUser e store user global =
     (case exec e (write_cmd user global) (Some repoPath) of
        ExecErr \<Rightarrow>
          (Resolved None, store,
           [Exec probe_cmd (Some repoPath), Exec (write_cmd user global) (Some repoPath),
            ConsoleError ''Error setting user:'', ShowErrorMessage ''Error setting current user''])
      | ExecOk out \<Rightarrow>
          (case addIfAbsent e store user of
             (Rejected err, store', evs) \<Rightarrow>
               (Resolved None, store',
                [Exec probe_cmd (Some repoPath), Exec (write_cmd user global) (Some repoPath)] @ evs
                @ [ShowErrorMessage ''Error setting current user''])
           | (Resolved u, store', evs) \<Rightarrow>
               (Resolved (Some user), store',
                [Exec probe_cmd (Some repoPath), Exec (write_cmd user global) (Some repoPath)] @ evs)))"
  using assms
  by (auto simp: setUser_def setUser_try_def Let_def
           split: exec_result.splits prod.splits outcome.splits)

text \<open>
  C9. When the write command is run and fails, \<open>setUser\<close> goes from the rejected
  promise straight to its \<open>catch\<close>: it returns nothing, the stored sequence is the
  one it started with, and the effects are the repository check, the write command and
  the two error reports, with no write to the configuration among them.
\<close>

theorem setUser_write_fails:
  assumes "workspaceFolders e = Some (repoPath # rest)"
    and "global \<or> exec e probe_cmd (Some repoPath) \<noteq> ExecErr"
    and "exec e (write_cmd user global) (Some repoPath) = ExecErr"
  shows "setUser e store user global =
           (Resolved None, store,
            [Exec probe_cmd (Some repoPath), Exec (write_cmd user global) (Some repoPath),
             ConsoleError ''Error setting user:'', ShowErrorMessage ''Error setting current user''])
         \<and> (\<forall>l. Update l \<notin> set (snd (snd (setUser e store user global))))"
  using setUser_reaches_write [OF assms(1,2), of store user] assms(3) by simp

theorem setUser_write_fails_witness:
  "setUser \<lparr>workspaceFolders = Some [''/work''],
            exec = (\<lambda>c d. if c = probe_cmd then ExecOk ''true'' else ExecErr),
            update = (\<lambda>l. True)\<rparr>
      [\<lparr>name = Str ''Alice'', email = Str ''alice@x.com''\<rparr>]
      \<lparr>name = Str ''Bob'', email = Str ''bob@x.com''\<rparr> False =
     (Resolved None, [\<lparr>name = Str ''Alice'', email = Str ''alice@x.com''\<rparr>],
      [Exec probe_cmd (Some ''/work''),
       Exec (write_cmd \<lparr>name = Str ''Bob'', email = Str ''bob@x.com''\<rparr> False) (Some ''/work''),
       ConsoleError ''Error setting user:'', ShowErrorMessage ''Error setting current user''])"
  using setUser_write_fails
    [of "\<lparr>workspaceFolders = Some [''/work''],
           exec = (\<lambda>c d. if c = probe_cmd then ExecOk ''true'' else ExecErr),
           update = (\<lambda>l. True)\<rparr>"
        "''/work''" "[]" False "\<lparr>name = Str ''Bob'', email = Str ''bob@x.com''\<rparr>"
        "[\<lparr>name = Str ''Alice'', email = Str ''alice@x.com''\<rparr>]"]
    write_cmd_not_probe_cmd [of "\<lparr>name = Str ''Bob'', email = Str ''bob@x.com''\<rparr>" False]
  by simp

text \<open>
  C5. In a workspace folder where the repository check fails, \<open>setUser\<close> with the
  global scope goes past the check. When the write command and the configuration write
  succeed and the user is not yet stored, the user is appended at the end of the stored
  sequence and returned.
\<close>

theorem setUser_global_without_repository:
  assumes "workspaceFolders e = Some (repoPath # rest)"
    and "exec e probe_cmd (Some repoPath) = ExecErr"
    and "exec e (write_cmd user True) (Some repoPath) = ExecOk out"
    and "user \<notin> set store"
    and "update e (store @ [user])"
  shows "setUser e store user True =
           (Resolved (Some user), store @ [user],
            [Exec probe_cmd (Some repoPath), Exec (write_cmd user True) (Some repoPath),
             Update (store @ [user])])"
  using setUser_reaches_write [OF assms(1), of True store user] assms(3)
    addIfAbsent_absent [OF assms(4), of e] assms(5)
  by simp

theorem setUser_global_without_repository_witness:
  "setUser \<lparr>workspaceFolders = Some [''/work''],
            exec = (\<lambda>c d. if c = probe_cmd then ExecErr else ExecOk ''''),
            update = (\<lambda>l. True)\<rparr>
      [\<lparr>name = Str ''Alice'', email = Str ''alice@x.com''\<rparr>]
      \<lparr>name = Str ''Bob'', email = Str ''bob@x.com''\<rparr> True =
     (Resolved (Some \<lparr>name = Str ''Bob'', email = Str ''bob@x.com''\<rparr>),
      [\<lparr>name = Str ''Alice'', email = Str ''alice@x.com''\<rparr>,
       \<lparr>name = Str ''Bob'', email = Str ''bob@x.com''\<rparr>],
      [Exec probe_cmd (Some ''/work''),
       Exec (write_cmd \<lparr>name = Str ''Bob'', email = Str ''bob@x.com''\<rparr> True) (Some ''/work''),
       Update [\<lparr>name = Str ''Alice'', email = Str ''alice@x.com''\<rparr>,
               \<lparr>name = Str ''Bob'', email = Str ''bob@x.com''\<rparr>]])"
  using setUser_global_without_repository
    [of "\<lparr>workspaceFolders = Some [''/work''],
           exec = (\<lambda>c d. if c = probe_cmd then ExecErr else ExecOk ''''),
           update = (\<lambda>l. True)\<rparr>"
        "''/work''" "[]" "\<lparr>name = Str ''Bob'', email = Str ''bob@x.com''\<rparr>" "''''"
        "[\<lparr>name = Str ''Alice'', email = Str ''alice@x.com''\<rparr>]"]
    write_cmd_not_probe_cmd [of "\<lparr>name = Str ''Bob'', email = Str ''bob@x.com''\<rparr>" True]
  by simp


lemma addIfAbsent_outcome:
  "fst (addIfAbsent e store user) =
     (if user \<in> set store \<or> update e (store @ [user]) then Resolved () else Rejected UpdateError)"
  by (cases rule: addIfAbsent_cases [of user store e]) auto

text \<open>
  C10. \<open>setUser\<close> returns the user it was given when there is a workspace folder, the
  scope is global or the repository check succeeds, the write command succeeds, and the
  user is already stored or the configuration write is accepted. In every other case
  (no workspace folder, local scope without a repository, a failed write command, a
  refused configuration write) it returns nothing, whatever the failure was.
\<close>

theorem setUser_returns:
  "fst (setUser e store user global) =
     (case workspaceFolders e of
        None \<Rightarrow> Resolved None
      | Some [] \<Rightarrow> Resolved None
      | Some (repoPath # rest) \<Rightarrow>
          if (global \<or> exec e probe_cmd (Some repoPath) \<noteq> ExecErr)
             \<and> exec e (write_cmd user global) (Some repoPath) \<noteq> ExecErr
             \<and> (user \<in> set store \<or> update e (store @ [user]))
          then Resolved (Some user)
          else Resolved None)"
proof (cases "workspaceFolders e")
  case None
  then show ?thesis by (simp add: setUser_def setUser_try_def)
next
  case (Some folders)
  show ?thesis
  proof (cases folders)
    case Nil
    with Some show ?thesis by (simp add: setUser_def setUser_try_def)
  next
    case (Cons repoPath rest)
    with Some have ws: "workspaceFolders e = Some (repoPath # rest)" by simp
    show ?thesis
    proof (cases "global \<or> exec e probe_cmd (Some repoPath) \<noteq> ExecErr")
      case False
      with ws show ?thesis by (simp add: setUser_def setUser_try_def)
    next
      case True
      show ?thesis
        using setUser_reaches_write [OF ws True, of store user]
          addIfAbsent_outcome [of e store user] ws True
        by (auto split: exec_result.splits prod.splits outcome.splits)
    qed
  qed
qed


theorem setUser_returns_witness:
  "fst (setUser \<lparr>workspaceFolders = Some [''/work''], exec = (\<lambda>c d. ExecOk ''''), update = (\<lambda>l. True)\<rparr>
          [] \<lparr>name = Str ''Bob'', email = Str ''bob@x.com''\<rparr> False) =
     Resolved (Some \<lparr>name = Str ''Bob'', email = Str ''bob@x.com''\<rparr>)
   \<and> fst (setUser \<lparr>workspaceFolders = Some [''/work''], exec = (\<lambda>c d. ExecOk ''''), update = (\<lambda>l. False)\<rparr>
          [] \<lparr>name = Str ''Bob'', email = Str ''bob@x.com''\<rparr> False) =
     Resolved None"
  using setUser_returns
    [of "\<lparr>workspaceFolders = Some [''/work''], exec = (\<lambda>c d. ExecOk ''''), update = (\<lambda>l. True)\<rparr>"
        "[]" "\<lparr>name = Str ''Bob'', email = Str ''bob@x.com''\<rparr>" False]
    setUser_returns
    [of "\<lparr>workspaceFolders = Some [''/work''], exec = (\<lambda>c d. ExecOk ''''), update = (\<lambda>l. False)\<rparr>"
        "[]" "\<lparr>name = Str ''Bob'', email = Str ''bob@x.com''\<rparr>" False]
  by simp

text \<open>
  The three ways a call of \<open>setUser\<close> can end: nothing returned and the stored sequence
  untouched; the user returned and already stored; the user returned and appended.
\<close>

lemma setUser_cases:
  obtains (stopped) "fst (setUser e store user global) = Resolved None"
      "fst (snd (setUser e store user global)) = store"
      "\<exists>evs m. snd (snd (setUser e store user global)) = evs @ [ShowErrorMessage m]"
  | (kept) "fst (setUser e store user global) = Resolved (Some user)"
      "user \<in> set store" "fst (snd (setUser e store user global)) = store"
  | (appended) "fst (setUser e store user global) = Resolved (Some user)"
      "user \<notin> set store" "fst (snd (setUser e store user global)) = store @ [user]"
proof (cases "workspaceFolders e")
  case None
  then have "setUser e store user global =
      (Resolved None, store, [] @ [ShowErrorMessage ''No workspace folder found''])"
    by (simp add: setUser_def setUser_try_def)
  then show ?thesis using stopped by (metis fst_conv snd_conv)
next
  case (Some folders)
  show ?thesis
  proof (cases folders)
    case Nil
    with Some have "setUser e store user global =
        (Resolved None, store, [] @ [ShowErrorMessage ''No workspace folder found''])"
      by (simp add: setUser_def setUser_try_def)
    then show ?thesis using stopped by (metis fst_conv snd_conv)
  next
    case (Cons repoPath rest)
    with Some have ws: "workspaceFolders e = Some (repoPath # rest)" by simp
    show ?thesis
    proof (cases "global \<or> exec e probe_cmd (Some repoPath) \<noteq> ExecErr")
      case False
      with ws have "setUser e store user global =
          (Resolved None, store,
           [Exec probe_cmd (Some repoPath)] @
           [ShowErrorMessage ''Git repository not initialized. Please initialize a repository or set the user globally.''])"
        by (simp add: setUser_def setUser_try_def)
      then show ?thesis using stopped by (metis fst_conv snd_conv)
    next
      case True
      note reach = setUser_reaches_write [OF ws True, of store user]
      show ?thesis
      proof (cases "exec e (write_cmd user global) (Some repoPath)")
        case ExecErr
        with reach have "setUser e store user global =
            (Resolved None, store,
             [Exec probe_cmd (Some repoPath), Exec (write_cmd user global) (Some repoPath),
              ConsoleError ''Error setting user:''] @ [ShowErrorMessage ''Error setting current user''])"
          by simp
        then show ?thesis using stopped by (metis fst_conv snd_conv)
      next
        case (ExecOk out)
        show ?thesis
        proof (cases rule: addIfAbsent_cases [of user store e])
          case present
          with reach ExecOk show ?thesis using kept by simp
        next
          case pushed
          with reach ExecOk show ?thesis using appended by simp
        next
          case refused
          with reach ExecOk have "setUser e store user global =
            (Resolved None, store,
             ([Exec probe_cmd (Some repoPath), Exec (write_cmd user global) (Some repoPath)]
              @ [Update (store @ [user])]) @ [ShowErrorMessage ''Error setting current user''])"
            by simp
          then show ?thesis using stopped by (metis fst_conv snd_conv)
        qed
      qed
    qed
  qed
qed


section \<open>Resolving the current identity\<close>

lemma getCurrentUser_try_eq:
  "getCurrentUser_try e =
     (case exec e read_cmd (probe_cwd e) of
        ExecErr \<Rightarrow> (Inl ExecError, snd (repoPath_of e) @ [Exec read_cmd (probe_cwd e)])
      | ExecOk out \<Rightarrow>
          (Inr \<lparr>name = element (split_nl (trim out)) 0, email = element (split_nl (trim out)) 1\<rparr>,
           snd (repoPath_of e) @ [Exec read_cmd (probe_cwd e)]))"
  by (simp add: getCurrentUser_try_def Let_def split: exec_result.splits)

lemma getCurrentUser_catch_read_fails:
  "exec e read_cmd (probe_cwd e) = ExecErr \<Longrightarrow>
   getCurrentUser_catch e =
     (empty_user,
      snd (repoPath_of e) @ [Exec read_cmd (probe_cwd e), ShowErrorMessage ''Error getting current user''])"
  by (simp add: getCurrentUser_catch_def getCurrentUser_try_eq)

lemma getCurrentUser_eq:
  "getCurrentUser e store =
     (let currentUser = fst (getCurrentUser_catch e); evs = snd (getCurrentUser_catch e)
      in if currentUser \<in> set store then (Resolved currentUser, store, evs)
         else if update e (store @ [currentUser])
         then (Resolved currentUser, store @ [currentUser], evs @ [Update (store @ [currentUser])])
         else (Rejected UpdateError, store, evs @ [Update (store @ [currentUser])]))"
  by (cases rule: addIfAbsent_cases [of "fst (getCurrentUser_catch e)" store e])
     (auto simp: getCurrentUser_def Let_def split: prod.splits)

lemma count_list_distinct: "distinct xs \<Longrightarrow> x \<in> set xs \<Longrightarrow> count_list xs x = 1"
  by (induction xs) auto

text \<open>
  C4, as the code has it. When the read command fails, the \<open>catch\<close> of
  \<open>getCurrentUser\<close> shows "Error getting current user" and the current user stays the
  empty one. With a stored sequence free of duplicates: if the empty user is already
  stored or the configuration write is accepted, \<open>getCurrentUser\<close> returns the empty
  user and the stored sequence holds it exactly once afterwards; if the empty user has
  to be added and the write is refused, the promise is rejected and the stored sequence
  is unchanged.
\<close>

theorem getCurrentUser_read_fails:
  assumes "exec e read_cmd (probe_cwd e) = ExecErr"
    and "distinct store"
  shows "ShowErrorMessage ''Error getting current user'' \<in> set (snd (snd (getCurrentUser e store)))
         \<and> (empty_user \<in> set store \<or> update e (store @ [empty_user]) \<longrightarrow>
              fst (getCurrentUser e store) = Resolved empty_user
              \<and> count_list (fst (snd (getCurrentUser e store))) empty_user = 1)
         \<and> (empty_user \<notin> set store \<and> \<not> update e (store @ [empty_user]) \<longrightarrow>
              fst (getCurrentUser e store) = Rejected UpdateError
              \<and> fst (snd (getCurrentUser e store)) = store)"
proof -
  note c = getCurrentUser_catch_read_fails [OF assms(1)]
  show ?thesis
  proof (cases "empty_user \<in> set store")
    case True
    then have "getCurrentUser e store = (Resolved empty_user, store, snd (getCurrentUser_catch e))"
      using c by (simp add: getCurrentUser_eq)
    then show ?thesis
      using c True assms(2) by (simp add: count_list_distinct)
  next
    case False
    show ?thesis
    proof (cases "update e (store @ [empty_user])")
      case True
      with False have "getCurrentUser e store =
          (Resolved empty_user, store @ [empty_user],
           snd (getCurrentUser_catch e) @ [Update (store @ [empty_user])])"
        using c by (simp add: getCurrentUser_eq)
      moreover have "count_list (store @ [empty_user]) empty_user = 1"
        using False assms(2) by (intro count_list_distinct) auto
      ultimately show ?thesis using c True by simp
    next
      case refused: False
      with False have "getCurrentUser e store =
          (Rejected UpdateError, store,
           snd (getCurrentUser_catch e) @ [Update (store @ [empty_user])])"
        using c by (simp add: getCurrentUser_eq)
      then show ?thesis using c False refused by simp
    qed
  qed
qed

theorem getCurrentUser_read_fails_witness:
  "fst (getCurrentUser \<lparr>workspaceFolders = Some [''/work''], exec = (\<lambda>c d. ExecErr), update = (\<lambda>l. True)\<rparr> [])
     = Resolved empty_user
   \<and> count_list
        (fst (snd (getCurrentUser
           \<lparr>workspaceFolders = Some [''/work''], exec = (\<lambda>c d. ExecErr), update = (\<lambda>l. True)\<rparr> [])))
        empty_user = 1"
  using getCurrentUser_read_fails
    [of "\<lparr>workspaceFolders = Some [''/work''], exec = (\<lambda>c d. ExecErr), update = (\<lambda>l. True)\<rparr>" "[]"]
  by simp

text \<open>
  A failed read command together with a refused configuration write: the probe failure
  is caught, the registration of the empty user is not, and the promise is rejected.
\<close>

theorem getCurrentUser_read_fails_rejects:
  "getCurrentUser
     \<lparr>workspaceFolders = Some [''/work''], exec = (\<lambda>c d. ExecErr), update = (\<lambda>l. False)\<rparr> [] =
   (Rejected UpdateError, [],
    [Exec read_cmd (Some ''/work''), ShowErrorMessage ''Error getting current user'',
     Update [\<lparr>name = Str '''', email = Str ''''\<rparr>]])"
  by (simp add: getCurrentUser_eq getCurrentUser_catch_def getCurrentUser_try_eq repoPath_of_def
        probe_cwd_def empty_user_def Let_def)

section \<open>What the probe makes of the output of the read command\<close>

lemma split_nl_not_Nil: "split_nl s \<noteq> []"
  by (induction s) (auto split: list.splits)

lemma length_split_nl: "length (split_nl s) = Suc (count_list s (CHR 0x0A))"
  using split_nl_not_Nil by (induction s) (auto split: list.splits)

lemma second_line_Undefined:
  "element (split_nl s) 1 = Undefined \<longleftrightarrow> CHR 0x0A \<notin> set s"
proof -
  have "count_list s (CHR 0x0A) = 0 \<longleftrightarrow> CHR 0x0A \<notin> set s"
    by (induction s) auto
  then show ?thesis
    by (auto simp: element_def length_split_nl)
qed

lemma first_line_Str: "element (split_nl s) 0 = Str (hd (split_nl s))"
  using split_nl_not_Nil [of s] by (cases "split_nl s") (auto simp: element_def)

text \<open>
  C6, as the code has it. The probe of \<open>getCurrentUser\<close> throws exactly when \<open>exec\<close>
  reports an error. Output that came without an error is never refused: the name is the
  first line of the trimmed output, always a string, and the email is the second line,
  or \<open>undefined\<close> exactly when the trimmed output has no line feed in it.
\<close>

theorem getCurrentUser_try_throws_iff:
  "((\<exists>err. fst (getCurrentUser_try e) = Inl err) \<longleftrightarrow> exec e read_cmd (probe_cwd e) = ExecErr)
   \<and> (\<forall>out. exec e read_cmd (probe_cwd e) = ExecOk out \<longrightarrow>
         fst (getCurrentUser_try e) =
           Inr \<lparr>name = Str (hd (split_nl (trim out))), email = element (split_nl (trim out)) 1\<rparr>
         \<and> (element (split_nl (trim out)) 1 = Undefined \<longleftrightarrow> CHR 0x0A \<notin> set (trim out)))"
  by (cases "exec e read_cmd (probe_cwd e)")
     (simp_all add: getCurrentUser_try_eq first_line_Str second_line_Undefined del: One_nat_def)

text \<open>
  A single line of output with exit status 0 is parsed, not refused: the user has the
  line as its name and an undefined email.
\<close>

theorem getCurrentUser_try_single_line:
  "getCurrentUser_try
     \<lparr>workspaceFolders = Some [''/work''],
      exec = (\<lambda>c d. ExecOk (''Alice'' @ [CHR 0x0A])),
      update = (\<lambda>l. True)\<rparr> =
   (Inr \<lparr>name = Str ''Alice'', email = Undefined\<rparr>, [Exec read_cmd (Some ''/work'')])"
  by (simp add: getCurrentUser_try_eq repoPath_of_def probe_cwd_def trim_def is_white_space_def
        element_def)

theorem getCurrentUser_try_throws_iff_witness:
  "fst (getCurrentUser_try
     \<lparr>workspaceFolders = Some [''/work''],
      exec = (\<lambda>c d. ExecOk (''Alice'' @ [CHR 0x0A] @ ''alice@x.com'' @ [CHR 0x0A])),
      update = (\<lambda>l. True)\<rparr>) =
   Inr \<lparr>name = Str ''Alice'', email = Str ''alice@x.com''\<rparr>"
  using getCurrentUser_try_throws_iff
    [of "\<lparr>workspaceFolders = Some [''/work''],
      exec = (\<lambda>c d. ExecOk (''Alice'' @ [CHR 0x0A] @ ''alice@x.com'' @ [CHR 0x0A])),
      update = (\<lambda>l. True)\<rparr>"]
  by (simp add: trim_def is_white_space_def element_def)


section \<open>Where the errors are caught\<close>

text \<open>
  C7, as the code has it. The \<open>try\<close> of \<open>setUser\<close> covers its whole body: the promise
  of \<open>setUser\<close> always resolves, and when it resolves to nothing the last effect is an
  error notice. The \<open>try\<close> of \<open>getCurrentUser\<close> covers the probe only: a failed read
  command is caught, with a notice and the empty user as the current one, but the
  registration comes after the \<open>catch\<close>, and the promise is rejected exactly when the
  current user is not stored and the configuration write is refused.
\<close>

theorem errors_caught_at_boundary:
  "(\<exists>result. fst (setUser e store user global) = Resolved result)
   \<and> (fst (setUser e store user global) = Resolved None \<longrightarrow>
        (\<exists>evs m. snd (snd (setUser e store user global)) = evs @ [ShowErrorMessage m]))
   \<and> fst (getCurrentUser e store) =
        (if fst (getCurrentUser_catch e) \<in> set store
            \<or> update e (store @ [fst (getCurrentUser_catch e)])
         then Resolved (fst (getCurrentUser_catch e))
         else Rejected UpdateError)
   \<and> (exec e read_cmd (probe_cwd e) = ExecErr \<longrightarrow>
        fst (getCurrentUser_catch e) = empty_user
        \<and> ShowErrorMessage ''Error getting current user'' \<in> set (snd (getCurrentUser_catch e)))"
proof -
  have a: "(\<exists>result. fst (setUser e store user global) = Resolved result)
     \<and> (fst (setUser e store user global) = Resolved None \<longrightarrow>
        (\<exists>evs m. snd (snd (setUser e store user global)) = evs @ [ShowErrorMessage m]))"
    by (cases rule: setUser_cases [of e store user global]) simp_all
  have b: "fst (getCurrentUser e store) =
        (if fst (getCurrentUser_catch e) \<in> set store
            \<or> update e (store @ [fst (getCurrentUser_catch e)])
         then Resolved (fst (getCurrentUser_catch e))
         else Rejected UpdateError)"
    by (simp add: getCurrentUser_eq Let_def)
  have c: "exec e read_cmd (probe_cwd e) = ExecErr \<longrightarrow>
        fst (getCurrentUser_catch e) = empty_user
        \<and> ShowErrorMessage ''Error getting current user'' \<in> set (snd (getCurrentUser_catch e))"
    by (simp add: getCurrentUser_catch_read_fails)
  from a b c show ?thesis by blast
qed

theorem errors_caught_at_boundary_witness:
  "fst (setUser \<lparr>workspaceFolders = Some [''/work''], exec = (\<lambda>c d. ExecErr), update = (\<lambda>l. False)\<rparr>
          [] \<lparr>name = Str ''Bob'', email = Str ''bob@x.com''\<rparr> True) = Resolved None
   \<and> fst (getCurrentUser \<lparr>workspaceFolders = Some [''/work''], exec = (\<lambda>c d. ExecErr), update = (\<lambda>l. False)\<rparr>
          [empty_user]) = Resolved empty_user"
proof -
  let ?e = "\<lparr>workspaceFolders = Some [''/work''], exec = (\<lambda>c d. ExecErr), update = (\<lambda>l. False)\<rparr>"
  let ?bob = "\<lparr>name = Str ''Bob'', email = Str ''bob@x.com''\<rparr>"
  have w: "exec ?e (write_cmd ?bob True) (Some ''/work'') = ExecErr" by simp
  have "fst (setUser ?e [] ?bob True) = Resolved None"
    using errors_caught_at_boundary [of ?e "[]" ?bob True]
      setUser_reaches_write [of ?e "''/work''" "[]" True "[]" ?bob] w
    by simp
  moreover have "fst (getCurrentUser ?e [empty_user]) = Resolved empty_user"
    using errors_caught_at_boundary [of ?e "[empty_user]" ?bob True] by simp
  ultimately show ?thesis by simp
qed

text \<open>
  A refused configuration write during the registration of \<open>getCurrentUser\<close> is not
  caught there: the promise is rejected.
\<close>

theorem getCurrentUser_rejects:
  "getCurrentUser
     \<lparr>workspaceFolders = Some [''/work''],
      exec = (\<lambda>c d. ExecOk (''Alice'' @ [CHR 0x0A] @ ''alice@x.com'' @ [CHR 0x0A])),
      update = (\<lambda>l. False)\<rparr> [] =
   (Rejected UpdateError, [],
    [Exec read_cmd (Some ''/work''), Update [\<lparr>name = Str ''Alice'', email = Str ''alice@x.com''\<rparr>]])"
  by (simp add: getCurrentUser_eq getCurrentUser_catch_def getCurrentUser_try_eq repoPath_of_def
        probe_cwd_def trim_def is_white_space_def element_def Let_def)


section \<open>The stored sequence over a run\<close>

text \<open>
  One call leaves the stored sequence as it was or appends one user that was not in it;
  a user the call returns is in the stored sequence afterwards.
\<close>

lemma getCurrentUser_cases:
  obtains (rejected) "fst (getCurrentUser e store) = Rejected UpdateError"
      "fst (snd (getCurrentUser e store)) = store"
  | (kept) user where "fst (getCurrentUser e store) = Resolved user"
      "user \<in> set store" "fst (snd (getCurrentUser e store)) = store"
  | (appended) user where "fst (getCurrentUser e store) = Resolved user"
      "user \<notin> set store" "fst (snd (getCurrentUser e store)) = store @ [user]"
proof (cases "fst (getCurrentUser_catch e) \<in> set store")
  case True
  then show ?thesis using kept [of "fst (getCurrentUser_catch e)"]
    by (simp add: getCurrentUser_eq Let_def)
next
  case False
  show ?thesis
  proof (cases "update e (store @ [fst (getCurrentUser_catch e)])")
    case True
    with False show ?thesis using appended [of "fst (getCurrentUser_catch e)"]
      by (simp add: getCurrentUser_eq Let_def)
  next
    case no: False
    with False show ?thesis using rejected
      by (simp add: getCurrentUser_eq Let_def)
  qed
qed

lemma run_op_cases:
  obtains (unchanged) "snd (run_op x store) = store"
      "\<forall>user. fst (run_op x store) = Some user \<longrightarrow> user \<in> set store"
  | (appended) user where "snd (run_op x store) = store @ [user]" "user \<notin> set store"
      "fst (run_op x store) = Some user"
proof (cases x)
  case (Resolve e)
  show ?thesis
  proof (cases rule: getCurrentUser_cases [of e store])
    case rejected
    then show ?thesis using unchanged Resolve
      by (cases "getCurrentUser e store") auto
  next
    case (kept user)
    then show ?thesis using unchanged Resolve
      by (cases "getCurrentUser e store") auto
  next
    case (appended user)
    then show ?thesis using that(2) [of user] Resolve
      by (cases "getCurrentUser e store") auto
  qed
next
  case (Apply e user global)
  show ?thesis
  proof (cases rule: setUser_cases [of e store user global])
    case stopped
    then show ?thesis using unchanged Apply
      by (cases "setUser e store user global") auto
  next
    case kept
    then show ?thesis using unchanged Apply
      by (cases "setUser e store user global") auto
  next
    case appended
    then show ?thesis using that(2) [of user] Apply
      by (cases "setUser e store user global") auto
  qed
qed

lemma run_op_distinct: "distinct store \<Longrightarrow> distinct (snd (run_op x store))"
  by (cases rule: run_op_cases [of x store]) auto

lemma run_op_grows: "set store \<subseteq> set (snd (run_op x store))"
  by (cases rule: run_op_cases [of x store]) auto

lemma run_op_returned: "fst (run_op x store) = Some user \<Longrightarrow> user \<in> set (snd (run_op x store))"
  by (cases rule: run_op_cases [of x store]) auto

lemma run_Cons:
  "run (x # xs) store =
     ((case fst (run_op x store) of
         None \<Rightarrow> fst (run xs (snd (run_op x store)))
       | Some user \<Rightarrow> user # fst (run xs (snd (run_op x store)))),
      snd (run xs (snd (run_op x store))))"
  by (auto simp: Let_def split: prod.splits option.splits)

lemma run_distinct: "distinct store \<Longrightarrow> distinct (snd (run xs store))"
  by (induction xs arbitrary: store) (simp_all add: run_Cons run_op_distinct del: run.simps(2))

lemma run_grows: "set store \<subseteq> set (snd (run xs store))"
proof (induction xs arbitrary: store)
  case Nil
  show ?case by simp
next
  case (Cons x xs)
  have "set store \<subseteq> set (snd (run_op x store))" by (rule run_op_grows)
  also have "\<dots> \<subseteq> set (snd (run xs (snd (run_op x store))))" by (rule Cons.IH)
  finally show ?case by (simp add: run_Cons del: run.simps(2))
qed

lemma run_returned: "set (fst (run xs store)) \<subseteq> set (snd (run xs store))"
proof (induction xs arbitrary: store)
  case Nil
  show ?case by simp
next
  case (Cons x xs)
  let ?s = "snd (run_op x store)"
  have rest: "set (fst (run xs ?s)) \<subseteq> set (snd (run xs ?s))" by (rule Cons.IH)
  show ?case
  proof (cases "fst (run_op x store)")
    case None
    with rest show ?thesis by (simp add: run_Cons del: run.simps(2))
  next
    case (Some user)
    then have "user \<in> set ?s" by (rule run_op_returned)
    then have "user \<in> set (snd (run xs ?s))" using run_grows [of ?s xs] by blast
    with rest Some show ?thesis by (simp add: run_Cons del: run.simps(2))
  qed
qed

text \<open>
  C2, as the code has it. Start from a stored sequence without duplicates and make any
  calls of \<open>getCurrentUser\<close> and \<open>setUser\<close>, each in an environment of its own.
  The stored sequence at the end has no duplicates, and every identity that one of the
  calls returned (the current identity, for a \<open>getCurrentUser\<close> that was not
  rejected; the identity applied, for a \<open>setUser\<close> that returned it) occurs in it
  exactly once. An identity that was read but whose registration was refused is not
  among them.
\<close>

theorem run_unique:
  assumes "distinct store"
  shows "distinct (snd (run xs store))
         \<and> (\<forall>user \<in> set (fst (run xs store)). count_list (snd (run xs store)) user = 1)"
proof (intro conjI ballI)
  show d: "distinct (snd (run xs store))"
    using assms by (rule run_distinct)
  fix user
  assume "user \<in> set (fst (run xs store))"
  then have "user \<in> set (snd (run xs store))"
    using run_returned [of xs store] by blast
  with d show "count_list (snd (run xs store)) user = 1"
    by (rule count_list_distinct)
qed


theorem run_unique_witness:
  "run [Resolve \<lparr>workspaceFolders = Some [''/work''],
                 exec = (\<lambda>c d. ExecOk (''Alice'' @ [CHR 0x0A] @ ''alice@x.com'' @ [CHR 0x0A])),
                 update = (\<lambda>l. True)\<rparr>,
        Apply \<lparr>workspaceFolders = Some [''/work''], exec = (\<lambda>c d. ExecOk ''''), update = (\<lambda>l. True)\<rparr>
              \<lparr>name = Str ''Bob'', email = Str ''bob@x.com''\<rparr> True,
        Apply \<lparr>workspaceFolders = Some [''/work''], exec = (\<lambda>c d. ExecOk ''''), update = (\<lambda>l. True)\<rparr>
              \<lparr>name = Str ''Alice'', email = Str ''alice@x.com''\<rparr> False] [] =
     ([\<lparr>name = Str ''Alice'', email = Str ''alice@x.com''\<rparr>,
       \<lparr>name = Str ''Bob'', email = Str ''bob@x.com''\<rparr>,
       \<lparr>name = Str ''Alice'', email = Str ''alice@x.com''\<rparr>],
      [\<lparr>name = Str ''Alice'', email = Str ''alice@x.com''\<rparr>,
       \<lparr>name = Str ''Bob'', email = Str ''bob@x.com''\<rparr>])
   \<and> count_list
        (snd (run [Resolve \<lparr>workspaceFolders = Some [''/work''],
                 exec = (\<lambda>c d. ExecOk (''Alice'' @ [CHR 0x0A] @ ''alice@x.com'' @ [CHR 0x0A])),
                 update = (\<lambda>l. True)\<rparr>,
        Apply \<lparr>workspaceFolders = Some [''/work''], exec = (\<lambda>c d. ExecOk ''''), update = (\<lambda>l. True)\<rparr>
              \<lparr>name = Str ''Bob'', email = Str ''bob@x.com''\<rparr> True,
        Apply \<lparr>workspaceFolders = Some [''/work''], exec = (\<lambda>c d. ExecOk ''''), update = (\<lambda>l. True)\<rparr>
              \<lparr>name = Str ''Alice'', email = Str ''alice@x.com''\<rparr> False] []))
        \<lparr>name = Str ''Alice'', email = Str ''alice@x.com''\<rparr> = 1"
proof -
  let ?alice = "\<lparr>name = Str ''Alice'', email = Str ''alice@x.com''\<rparr>"
  let ?bob = "\<lparr>name = Str ''Bob'', email = Str ''bob@x.com''\<rparr>"
  let ?probe = "\<lparr>workspaceFolders = Some [''/work''],
                 exec = (\<lambda>c d. ExecOk (''Alice'' @ [CHR 0x0A] @ ''alice@x.com'' @ [CHR 0x0A])),
                 update = (\<lambda>l. True)\<rparr>"
  let ?ok = "\<lparr>workspaceFolders = Some [''/work''], exec = (\<lambda>c d. ExecOk ''''), update = (\<lambda>l. True)\<rparr>"
  let ?ops = "[Resolve ?probe, Apply ?ok ?bob True, Apply ?ok ?alice False]"
  have r: "run ?ops [] = ([?alice, ?bob, ?alice], [?alice, ?bob])"
    by (simp add: getCurrentUser_eq getCurrentUser_catch_def getCurrentUser_try_eq repoPath_of_def
          probe_cwd_def trim_def is_white_space_def element_def Let_def
          setUser_def setUser_try_def addIfAbsent_def getUsersList_def)
  have "\<forall>user \<in> set (fst (run ?ops [])). count_list (snd (run ?ops [])) user = 1"
    using run_unique [of "[]" ?ops] by simp
  then have "count_list (snd (run ?ops [])) ?alice = 1"
    unfolding r by simp
  with r show ?thesis by simp
qed

text \<open>
  An identity that the read command reported is not stored when the configuration write
  is refused: the probe parses Alice, the call is rejected, and the stored sequence
  stays empty.
\<close>

theorem run_probed_not_stored:
  "fst (getCurrentUser_try
          \<lparr>workspaceFolders = Some [''/home/alice/project''],
           exec = (\<lambda>c d. ExecOk (''Alice'' @ [CHR 0x0A] @ ''alice@x.com'' @ [CHR 0x0A])),
           update = (\<lambda>l. False)\<rparr>) =
     Inr \<lparr>name = Str ''Alice'', email = Str ''alice@x.com''\<rparr>
   \<and> run [Resolve \<lparr>workspaceFolders = Some [''/home/alice/project''],
                    exec = (\<lambda>c d. ExecOk (''Alice'' @ [CHR 0x0A] @ ''alice@x.com'' @ [CHR 0x0A])),
                    update = (\<lambda>l. False)\<rparr>] [] = ([], [])
   \<and> count_list
        (snd (run [Resolve \<lparr>workspaceFolders = Some [''/home/alice/project''],
                    exec = (\<lambda>c d. ExecOk (''Alice'' @ [CHR 0x0A] @ ''alice@x.com'' @ [CHR 0x0A])),
                    update = (\<lambda>l. False)\<rparr>] []))
        \<lparr>name = Str ''Alice'', email = Str ''alice@x.com''\<rparr> = 0"
  by (simp add: getCurrentUser_eq getCurrentUser_catch_def getCurrentUser_try_eq repoPath_of_def
        probe_cwd_def trim_def is_white_space_def element_def Let_def)

section \<open>Registering the same identity again\<close>

text \<open>
  C3. After a call of the registration block that completed, a second call with the
  same user, in any environment, neither changes the stored sequence nor writes the
  configuration. With one environment for both calls the second call never changes what
  the first one left. And \<open>setUser\<close> with a user that is already stored leaves the
  stored sequence, and so its length, unchanged.
\<close>

theorem addIfAbsent_twice:
  "(fst (addIfAbsent e1 store user) = Resolved () \<longrightarrow>
      addIfAbsent e2 (fst (snd (addIfAbsent e1 store user))) user =
        (Resolved (), fst (snd (addIfAbsent e1 store user)), []))
   \<and> fst (snd (addIfAbsent e1 (fst (snd (addIfAbsent e1 store user))) user)) =
        fst (snd (addIfAbsent e1 store user))
   \<and> (user \<in> set store \<longrightarrow>
        fst (snd (setUser e1 store user global)) = store
        \<and> length (fst (snd (setUser e1 store user global))) = length store)"
proof (intro conjI impI)
  assume "fst (addIfAbsent e1 store user) = Resolved ()"
  then have "user \<in> set (fst (snd (addIfAbsent e1 store user)))"
    by (cases rule: addIfAbsent_cases [of user store e1]) auto
  then show "addIfAbsent e2 (fst (snd (addIfAbsent e1 store user))) user =
        (Resolved (), fst (snd (addIfAbsent e1 store user)), [])"
    by (rule addIfAbsent_present)
next
  show "fst (snd (addIfAbsent e1 (fst (snd (addIfAbsent e1 store user))) user)) =
        fst (snd (addIfAbsent e1 store user))"
    by (cases rule: addIfAbsent_cases [of user store e1]) (simp_all add: addIfAbsent_present)
next
  assume "user \<in> set store"
  then show s: "fst (snd (setUser e1 store user global)) = store"
    by (cases rule: setUser_cases [of e1 store user global]) simp_all
  then show "length (fst (snd (setUser e1 store user global))) = length store"
    by simp
qed

theorem addIfAbsent_twice_witness:
  "addIfAbsent \<lparr>workspaceFolders = None, exec = (\<lambda>c d. ExecErr), update = (\<lambda>l. False)\<rparr>
     (fst (snd (addIfAbsent \<lparr>workspaceFolders = None, exec = (\<lambda>c d. ExecErr), update = (\<lambda>l. True)\<rparr>
        [] \<lparr>name = Str ''Alice'', email = Str ''alice@x.com''\<rparr>)))
     \<lparr>name = Str ''Alice'', email = Str ''alice@x.com''\<rparr> =
   (Resolved (), [\<lparr>name = Str ''Alice'', email = Str ''alice@x.com''\<rparr>], [])"
proof -
  let ?alice = "\<lparr>name = Str ''Alice'', email = Str ''alice@x.com''\<rparr>"
  let ?e1 = "\<lparr>workspaceFolders = None, exec = (\<lambda>c d. ExecErr), update = (\<lambda>l. True)\<rparr>"
  let ?e2 = "\<lparr>workspaceFolders = None, exec = (\<lambda>c d. ExecErr), update = (\<lambda>l. False)\<rparr>"
  have first: "addIfAbsent ?e1 [] ?alice = (Resolved (), [?alice], [Update [?alice]])"
    by (simp add: addIfAbsent_def getUsersList_def Let_def)
  show ?thesis
    using addIfAbsent_twice [of ?e1 "[]" ?alice ?e2] unfolding first by simp
qed

end
